theory Spec2Isabelle
  imports Complex_Main "HOL-Library.AList" "HOL-Library.Product_Lexorder"
begin

section \<open>Calendar dates\<close>

text \<open>
  The notebook handles dates through Python's \<^verbatim>\<open>datetime\<close>: \<^verbatim>\<open>strptime\<close> builds them,
  \<^verbatim>\<open>strftime\<close> prints them and \<^verbatim>\<open>date + timedelta\<close> shifts them. A date is a year, a
  month and a day; the time of day is always midnight here and is left out, so a pandas
  \<^verbatim>\<open>Timestamp\<close> and a \<^verbatim>\<open>datetime.date\<close> are the same value.
\<close>

datatype date = Date (year: nat) (month: nat) (day: nat)

datatype error = KeyError | AttributeError | ValueError | TypeError | OverflowError

definition bind_err :: "error + 'a \<Rightarrow> ('a \<Rightarrow> error + 'b) \<Rightarrow> error + 'b" where
  "bind_err m f = (case m of Inl e \<Rightarrow> Inl e | Inr x \<Rightarrow> f x)"

text \<open>\<^verbatim>\<open>Series.apply(f)\<close>: the elements in order, stopping at the first one that raises.\<close>

fun traverse :: "('a \<Rightarrow> error + 'b) \<Rightarrow> 'a list \<Rightarrow> error + 'b list" where
  "traverse f [] = Inr []"
| "traverse f (x # xs) =
     (case f x of Inl e \<Rightarrow> Inl e
      | Inr y \<Rightarrow> (case traverse f xs of Inl e \<Rightarrow> Inl e | Inr ys \<Rightarrow> Inr (y # ys)))"

subsection \<open>Ordinals (datetime's proleptic Gregorian day count)\<close>

definition is_leap :: "nat \<Rightarrow> bool" where
  "is_leap y = (y mod 4 = 0 \<and> (y mod 100 \<noteq> 0 \<or> y mod 400 = 0))"

definition days_before_year :: "nat \<Rightarrow> nat" where
  "days_before_year yr = (let y = yr - 1 in y * 365 + y div 4 - y div 100 + y div 400)"

definition DAYS_IN_MONTH :: "nat list" where
  "DAYS_IN_MONTH = [0, 31, 28, 31, 30, 31, 30, 31, 31, 30, 31, 30, 31]"

definition DAYS_BEFORE_MONTH :: "nat list" where
  "DAYS_BEFORE_MONTH = [0, 0, 31, 59, 90, 120, 151, 181, 212, 243, 273, 304, 334]"

definition days_in_month :: "nat \<Rightarrow> nat \<Rightarrow> nat" where
  "days_in_month y m = (if m = 2 \<and> is_leap y then 29 else DAYS_IN_MONTH ! m)"

definition days_before_month :: "nat \<Rightarrow> nat \<Rightarrow> nat" where
  "days_before_month y m = DAYS_BEFORE_MONTH ! m + (if 2 < m \<and> is_leap y then 1 else 0)"

definition ymd2ord :: "nat \<Rightarrow> nat \<Rightarrow> nat \<Rightarrow> nat" where
  "ymd2ord y m d = days_before_year y + days_before_month y m + d"

definition toordinal :: "date \<Rightarrow> nat" where
  "toordinal dt = ymd2ord (year dt) (month dt) (day dt)"

definition MAXORDINAL :: nat where
  "MAXORDINAL = 3652059"

definition ord2ymd :: "nat \<Rightarrow> date" where
  "ord2ymd n0 =
     (let n = n0 - 1;
          n400 = n div 146097; n = n mod 146097;
          n100 = n div 36524; n = n mod 36524;
          n4 = n div 1461; n = n mod 1461;
          n1 = n div 365; n = n mod 365;
          yr = n400 * 400 + 1 + n100 * 100 + n4 * 4 + n1
      in if n1 = 4 \<or> n100 = 4 then Date (yr - 1) 12 31
         else
           let leapyear = (n1 = 3 \<and> (n4 \<noteq> 24 \<or> n100 = 3));
               mth = (n + 50) div 32;
               preceding = DAYS_BEFORE_MONTH ! mth + (if 2 < mth \<and> leapyear then 1 else 0)
           in if preceding > n
              then let mth' = mth - 1;
                       preceding' = preceding
                         - (DAYS_IN_MONTH ! mth' + (if mth' = 2 \<and> leapyear then 1 else 0))
                   in Date yr mth' (n - preceding' + 1)
              else Date yr mth (n - preceding + 1))"

text \<open>
  The constructor \<^verbatim>\<open>date(y, m, d)\<close> checks its fields and raises \<^verbatim>\<open>ValueError\<close>
  outside \<^verbatim>\<open>MINYEAR..MAXYEAR\<close>, \<^verbatim>\<open>1..12\<close> and the length of the month.
\<close>

definition valid_date :: "nat \<Rightarrow> nat \<Rightarrow> nat \<Rightarrow> bool" where
  "valid_date y m d =
     (1 \<le> y \<and> y \<le> 9999 \<and> 1 \<le> m \<and> m \<le> 12 \<and> 1 \<le> d \<and> d \<le> days_in_month y m)"

definition mk_date :: "nat \<Rightarrow> nat \<Rightarrow> nat \<Rightarrow> error + date" where
  "mk_date y m d = (if valid_date y m d then Inr (Date y m d) else Inl ValueError)"

text \<open>
  \<^verbatim>\<open>date + timedelta(days=k)\<close>: the ordinal is shifted and must stay within
  \<^verbatim>\<open>1.._MAXORDINAL\<close>, else \<^verbatim>\<open>OverflowError\<close>.
\<close>

definition date_add :: "date \<Rightarrow> int \<Rightarrow> error + date" where
  "date_add dt k =
     (let o' = int (toordinal dt) + k
      in if 0 < o' \<and> o' \<le> int MAXORDINAL then Inr (ord2ymd (nat o')) else Inl OverflowError)"

text \<open>Dates compare as the tuples \<^verbatim>\<open>(year, month, day)\<close>.\<close>

definition ymd :: "date \<Rightarrow> nat \<times> nat \<times> nat" where
  "ymd dt = (year dt, month dt, day dt)"

subsection \<open>Printing: \<^verbatim>\<open>str(int)\<close> and \<^verbatim>\<open>strftime("%b %d")\<close>\<close>

definition digit_char :: "nat \<Rightarrow> char" where
  "digit_char n = ''0123456789'' ! n"

fun str_nat :: "nat \<Rightarrow> string" where
  "str_nat n = (if n < 10 then [digit_char n] else str_nat (n div 10) @ [digit_char (n mod 10)])"

declare str_nat.simps [simp del]

definition str_int :: "int \<Rightarrow> string" where
  "str_int i = (if i < 0 then CHR ''-'' # str_nat (nat (- i)) else str_nat (nat i))"

definition month_abbr :: "nat \<Rightarrow> string" where
  "month_abbr m = [''Jan'', ''Feb'', ''Mar'', ''Apr'', ''May'', ''Jun'',
                   ''Jul'', ''Aug'', ''Sep'', ''Oct'', ''Nov'', ''Dec''] ! (m - 1)"

definition pad2 :: "nat \<Rightarrow> string" where
  "pad2 n = (if n < 10 then CHR ''0'' # str_nat n else str_nat n)"

definition strftime_b_d :: "date \<Rightarrow> string" where
  "strftime_b_d dt = month_abbr (month dt) @ '' '' @ pad2 (day dt)"

subsection \<open>Parsing: \<^verbatim>\<open>strptime(s, "%Y%m%d")\<close>\<close>

text \<open>
  \<^verbatim>\<open>strptime\<close> turns the format into a regular expression and matches it at the start of
  the string:
  \<^verbatim>\<open>%Y = \d\d\d\d\<close>, \<^verbatim>\<open>%m = 1[0-2]|0[1-9]|[1-9]\<close>,
  \<^verbatim>\<open>%d = 3[01]|[12]\d|0[1-9]|[1-9]| [1-9]\<close>.
  The alternatives are tried from left to right with backtracking, the first match is
  taken, and characters left over after it are an error. Each function below gives the
  matches of one directive in the order the regular expression tries them, as pairs of the
  matched text and the rest.
\<close>

definition is_digit :: "char \<Rightarrow> bool" where
  "is_digit c = (c \<in> set ''0123456789'')"

definition digit_val :: "char \<Rightarrow> nat" where
  "digit_val c = of_char c - 48"

definition in_range :: "char \<Rightarrow> char \<Rightarrow> char \<Rightarrow> bool" where
  "in_range lo hi c = (is_digit c \<and> digit_val lo \<le> digit_val c \<and> digit_val c \<le> digit_val hi)"

fun match_Y :: "string \<Rightarrow> (string \<times> string) list" where
  "match_Y (a # b # c # d # rest) =
     (if is_digit a \<and> is_digit b \<and> is_digit c \<and> is_digit d then [([a, b, c, d], rest)] else [])"
| "match_Y _ = []"

text \<open>Two characters, the first equal to or within a range, the second within a range.\<close>

fun two :: "(char \<Rightarrow> bool) \<Rightarrow> (char \<Rightarrow> bool) \<Rightarrow> string \<Rightarrow> (string \<times> string) list" where
  "two p q (a # b # rest) = (if p a \<and> q b then [([a, b], rest)] else [])"
| "two p q _ = []"

fun one :: "(char \<Rightarrow> bool) \<Rightarrow> string \<Rightarrow> (string \<times> string) list" where
  "one p (a # rest) = (if p a then [([a], rest)] else [])"
| "one p _ = []"

definition match_m :: "string \<Rightarrow> (string \<times> string) list" where
  "match_m s =
     two (\<lambda>c. c = CHR ''1'') (in_range CHR ''0'' CHR ''2'') s
     @ two (\<lambda>c. c = CHR ''0'') (in_range CHR ''1'' CHR ''9'') s
     @ one (in_range CHR ''1'' CHR ''9'') s"

definition match_d :: "string \<Rightarrow> (string \<times> string) list" where
  "match_d s =
     two (\<lambda>c. c = CHR ''3'') (in_range CHR ''0'' CHR ''1'') s
     @ two (in_range CHR ''1'' CHR ''2'') is_digit s
     @ two (\<lambda>c. c = CHR ''0'') (in_range CHR ''1'' CHR ''9'') s
     @ one (in_range CHR ''1'' CHR ''9'') s
     @ two (\<lambda>c. c = CHR '' '') (in_range CHR ''1'' CHR ''9'') s"

definition regex_Ymd :: "string \<Rightarrow> (string \<times> string \<times> string \<times> string) list" where
  "regex_Ymd s =
     concat (map (\<lambda>(y, r1).
       concat (map (\<lambda>(m, r2).
         map (\<lambda>(d, r3). (y, m, d, r3)) (match_d r2)) (match_m r1))) (match_Y s))"

text \<open>\<^verbatim>\<open>int(s)\<close> on a matched group: blanks around the digits are skipped.\<close>

definition int_of_group :: "string \<Rightarrow> nat" where
  "int_of_group s = foldl (\<lambda>acc c. 10 * acc + digit_val c) 0 (filter is_digit s)"

definition strptime :: "string \<Rightarrow> error + date" where
  "strptime s =
     (case regex_Ymd s of
        [] \<Rightarrow> Inl ValueError
      | (y, m, d, rest) # _ \<Rightarrow>
          if rest \<noteq> [] then Inl ValueError
          else mk_date (int_of_group y) (int_of_group m) (int_of_group d))"

section \<open>Frames\<close>

text \<open>
  A cell is a null (\<^verbatim>\<open>NaN\<close>/\<^verbatim>\<open>None\<close>), a number, a string or a date. Numbers are real
  numbers: the arithmetic of the notebook is written over them exactly, and the rounding of
  binary floating point is not part of the model.

  A \<^verbatim>\<open>DataFrame\<close> is its column labels and its rows; a row is its index label and its
  cells by column label.
\<close>

datatype cell = NaN | Num real | Str string | Stamp date

type_synonym fields = "(string \<times> cell) list"
type_synonym row = "cell \<times> fields"

record frame =
  columns :: "string list"
  rows :: "row list"

definition getitem :: "fields \<Rightarrow> string \<Rightarrow> cell" where
  "getitem r c = (case map_of r c of Some v \<Rightarrow> v | None \<Rightarrow> NaN)"

text \<open>\<^verbatim>\<open>df.drop(labels, axis=1)\<close>: every label must be a column.\<close>

definition drop_columns :: "string list \<Rightarrow> frame \<Rightarrow> error + frame" where
  "drop_columns labels df =
     (if \<exists>l \<in> set labels. l \<notin> set (columns df) then Inl KeyError
      else Inr \<lparr>columns = filter (\<lambda>c. c \<notin> set labels) (columns df),
                rows = map (\<lambda>(l, r). (l, filter (\<lambda>(k, v). k \<notin> set labels) r)) (rows df)\<rparr>)"

text \<open>\<^verbatim>\<open>df.c\<close>: the column as a list of cells; \<^verbatim>\<open>AttributeError\<close> when there is none.\<close>

definition getattr :: "frame \<Rightarrow> string \<Rightarrow> error + cell list" where
  "getattr df c =
     (if c \<in> set (columns df) then Inr (map (\<lambda>(l, r). getitem r c) (rows df))
      else Inl AttributeError)"

text \<open>
  \<^verbatim>\<open>df[c] = values\<close> (and \<^verbatim>\<open>df.c = values\<close> on a column that exists): the column is
  overwritten in place, or appended as the last one.
\<close>

definition setitem :: "string \<Rightarrow> cell list \<Rightarrow> frame \<Rightarrow> frame" where
  "setitem c vs df =
     \<lparr>columns = (if c \<in> set (columns df) then columns df else columns df @ [c]),
      rows = map (\<lambda>((l, r), v). (l, AList.update c v r)) (zip (rows df) vs)\<rparr>"

text \<open>
  \<^verbatim>\<open>df.sort_values(c)\<close>, on a column of dates. No other content is sorted by the
  notebook, and the model refuses it with the \<^verbatim>\<open>TypeError\<close> that pandas raises on
  objects it cannot compare. Rows with equal keys keep their order here; pandas promises
  nothing about them, and nothing below depends on it.
\<close>

fun is_stamp :: "cell \<Rightarrow> bool" where
  "is_stamp (Stamp d) = True"
| "is_stamp _ = False"

fun stamp_key :: "cell \<Rightarrow> nat \<times> nat \<times> nat" where
  "stamp_key (Stamp d) = ymd d"
| "stamp_key _ = (0, 0, 0)"

definition sort_values :: "string \<Rightarrow> frame \<Rightarrow> error + frame" where
  "sort_values c df =
     (if c \<notin> set (columns df) then Inl KeyError
      else if \<exists>(l, r) \<in> set (rows df). \<not> is_stamp (getitem r c) then Inl TypeError
      else Inr (df\<lparr>rows := sort_key (\<lambda>(l, r). stamp_key (getitem r c)) (rows df)\<rparr>))"

text \<open>\<^verbatim>\<open>df.set_index(c)\<close>: the column becomes the index and leaves the columns.\<close>

definition set_index :: "string \<Rightarrow> frame \<Rightarrow> error + frame" where
  "set_index c df =
     (if c \<notin> set (columns df) then Inl KeyError
      else Inr \<lparr>columns = filter (\<lambda>k. k \<noteq> c) (columns df),
                rows = map (\<lambda>(l, r). (getitem r c, filter (\<lambda>(k, v). k \<noteq> c) r)) (rows df)\<rparr>)"

text \<open>\<^verbatim>\<open>df.fillna(v)\<close>: every null cell of every column; the index is left alone.\<close>

fun fill :: "cell \<Rightarrow> cell \<Rightarrow> cell" where
  "fill v NaN = v"
| "fill v c = c"

definition fillna :: "cell \<Rightarrow> frame \<Rightarrow> frame" where
  "fillna v df = df\<lparr>rows := map (\<lambda>(l, r). (l, map (\<lambda>(k, x). (k, fill v x)) r)) (rows df)\<rparr>"

subsection \<open>Cleaning (the cell \<^verbatim>\<open>data = df.drop(...) ... data.fillna(0)\<close>)\<close>

text \<open>
  \<^verbatim>\<open>astype(str)\<close>: an integer prints in decimal, a string is itself, a null prints as
  \<^verbatim>\<open>nan\<close>, a date in ISO form. A number that is not an integer prints with a decimal point
  or an exponent; its digits are not modelled (\<open>None\<close>) and \<^verbatim>\<open>strptime\<close> rejects it
  whatever they are.
\<close>

definition pad4 :: "nat \<Rightarrow> string" where
  "pad4 n = replicate (4 - length (str_nat n)) CHR ''0'' @ str_nat n"

definition isoformat :: "date \<Rightarrow> string" where
  "isoformat dt = pad4 (year dt) @ ''-'' @ pad2 (month dt) @ ''-'' @ pad2 (day dt)"

fun astype_str :: "cell \<Rightarrow> string option" where
  "astype_str (Num x) = (if x = of_int \<lfloor>x\<rfloor> then Some (str_int \<lfloor>x\<rfloor>) else None)"
| "astype_str (Str s) = Some s"
| "astype_str NaN = Some ''nan''"
| "astype_str (Stamp d) = Some (isoformat d)"

definition to_datetime :: "cell \<Rightarrow> error + cell" where
  "to_datetime c =
     (case astype_str c of
        None \<Rightarrow> Inl ValueError
      | Some s \<Rightarrow> bind_err (strptime s) (\<lambda>d. Inr (Stamp d)))"

text \<open>\<^verbatim>\<open>lambda d: d.strftime("%b %d")\<close>\<close>

fun day_label :: "cell \<Rightarrow> error + cell" where
  "day_label (Stamp d) = Inr (Str (strftime_b_d d))"
| "day_label _ = Inl AttributeError"

definition clean :: "frame \<Rightarrow> error + frame" where
  "clean df =
     bind_err (drop_columns [''hash'', ''dateChecked''] df) (\<lambda>data.
     bind_err (getattr data ''date'') (\<lambda>col.
     bind_err (traverse to_datetime col) (\<lambda>dates.
     let data = setitem ''date'' dates data in
     bind_err (getattr data ''date'') (\<lambda>col.
     bind_err (traverse day_label col) (\<lambda>days.
     let data = setitem ''day'' days data in
     bind_err (sort_values ''date'' data) (\<lambda>data.
     bind_err (set_index ''date'' data) (\<lambda>data.
     Inr (fillna (Num 0) data))))))))"

subsection \<open>Back-extrapolation (\<^verbatim>\<open>estimate\<close> and \<^verbatim>\<open>estimates\<close>)\<close>

definition delta :: int where
  "delta = - 14"

definition death_rate :: real where
  "death_rate = 0.0066"

definition death_rate_s :: real where
  "death_rate_s = 0.0138"

text \<open>\<^verbatim>\<open>row.name.date()\<close>: only a timestamp has the method.\<close>

fun name_date :: "cell \<Rightarrow> error + date" where
  "name_date (Stamp d) = Inr d"
| "name_date _ = Inl AttributeError"

text \<open>\<^verbatim>\<open>row.death\<close>\<close>

definition row_getattr :: "fields \<Rightarrow> string \<Rightarrow> error + cell" where
  "row_getattr r c = (case map_of r c of Some v \<Rightarrow> Inr v | None \<Rightarrow> Inl AttributeError)"

text \<open>\<^verbatim>\<open>x / rate\<close> with a float \<^verbatim>\<open>rate\<close>: a null stays null, a string or a date cannot be divided.\<close>

fun truediv :: "cell \<Rightarrow> real \<Rightarrow> error + cell" where
  "truediv (Num x) r = Inr (Num (x / r))"
| "truediv NaN r = Inr NaN"
| "truediv _ r = Inl TypeError"

definition estimate :: "row \<Rightarrow> error + fields" where
  "estimate row =
     bind_err (name_date (fst row)) (\<lambda>d0.
     bind_err (date_add d0 delta) (\<lambda>d.
     bind_err (row_getattr (snd row) ''death'') (\<lambda>death.
     bind_err (truediv death death_rate) (\<lambda>infected.
     bind_err (row_getattr (snd row) ''death'') (\<lambda>death'.
     bind_err (truediv death' death_rate_s) (\<lambda>symptomatic.
     Inr [(''date'', Stamp d),
          (''infected'', infected),
          (''symptomatic'', symptomatic),
          (''day'', Str (strftime_b_d d))]))))))"

text \<open>
  \<^verbatim>\<open>data.apply(estimate, axis=1, result_type='expand')\<close>: a frame with no row or no
  column is handed back as it is; otherwise each row gives a dictionary, and the
  dictionaries become the rows of a new frame under the index of \<^verbatim>\<open>data\<close>.
\<close>

definition apply_expand :: "(row \<Rightarrow> error + fields) \<Rightarrow> frame \<Rightarrow> error + frame" where
  "apply_expand f df =
     (if rows df = [] \<or> columns df = [] then Inr df
      else bind_err (traverse f (rows df)) (\<lambda>ds.
        case ds of
          [] \<Rightarrow> Inr df
        | d # _ \<Rightarrow> Inr \<lparr>columns = map fst d, rows = zip (map fst (rows df)) ds\<rparr>))"

definition estimates :: "frame \<Rightarrow> error + frame" where
  "estimates data = bind_err (apply_expand estimate data) (set_index ''date'')"

subsection \<open>Differencing (\<^verbatim>\<open>diff = estimates.infected - data.positive\<close>)\<close>

type_synonym series = "(cell \<times> cell) list"

definition getattr_series :: "frame \<Rightarrow> string \<Rightarrow> error + series" where
  "getattr_series df c =
     (if c \<in> set (columns df) then Inr (map (\<lambda>(l, r). (l, getitem r c)) (rows df))
      else Inl AttributeError)"

fun sub_cell :: "cell \<Rightarrow> cell \<Rightarrow> error + cell" where
  "sub_cell (Num x) (Num y) = Inr (Num (x - y))"
| "sub_cell NaN (Num y) = Inr NaN"
| "sub_cell (Num x) NaN = Inr NaN"
| "sub_cell NaN NaN = Inr NaN"
| "sub_cell _ _ = Inl TypeError"

text \<open>
  Two series are subtracted label by label. With equal indexes that is position by
  position. Otherwise pandas joins the two indexes first: the result carries every label
  of either side, in ascending order, a label that one side lacks takes a null from that
  side, and a label that is repeated pairs each of its values on the left with each on the
  right. Only indexes of dates are joined by the notebook; the model refuses any other
  with \<^verbatim>\<open>TypeError\<close>.
\<close>

definition lookup_all :: "series \<Rightarrow> cell \<Rightarrow> cell list" where
  "lookup_all s k = map snd (filter (\<lambda>(k', v). k' = k) s)"

definition outer_join :: "series \<Rightarrow> series \<Rightarrow> (cell \<times> cell \<times> cell) list" where
  "outer_join a b =
     concat (map (\<lambda>k.
       let ls = lookup_all a k; rs = lookup_all b k
       in if rs = [] then map (\<lambda>x. (k, x, NaN)) ls
          else if ls = [] then map (\<lambda>y. (k, NaN, y)) rs
          else concat (map (\<lambda>x. map (\<lambda>y. (k, x, y)) rs) ls))
       (sort_key stamp_key (remdups (map fst a @ map fst b))))"

definition sub_entry :: "cell \<times> cell \<times> cell \<Rightarrow> error + cell \<times> cell" where
  "sub_entry e = (case e of (k, x, y) \<Rightarrow> bind_err (sub_cell x y) (\<lambda>v. Inr (k, v)))"

definition sub_series :: "series \<Rightarrow> series \<Rightarrow> error + series" where
  "sub_series a b =
     (if map fst a = map fst b
      then traverse sub_entry (map (\<lambda>((k, x), (k', y)). (k, x, y)) (zip a b))
      else if \<exists>k \<in> set (map fst a @ map fst b). \<not> is_stamp k then Inl TypeError
      else traverse sub_entry (outer_join a b))"

definition diff :: "frame \<Rightarrow> frame \<Rightarrow> error + series" where
  "diff est data =
     bind_err (getattr_series est ''infected'') (\<lambda>a.
     bind_err (getattr_series data ''positive'') (\<lambda>b.
     sub_series a b))"

section \<open>Basic facts\<close>

lemma bind_err_simps [simp]:
  "bind_err (Inl e) f = Inl e"
  "bind_err (Inr x) f = f x"
  by (simp_all add: bind_err_def)

lemma bind_err_Inr_iff: "bind_err m f = Inr y \<longleftrightarrow> (\<exists>x. m = Inr x \<and> f x = Inr y)"
  by (cases m) simp_all

lemmas date_eval = date_add_def toordinal_def ymd2ord_def days_before_year_def
  days_before_month_def DAYS_BEFORE_MONTH_def DAYS_IN_MONTH_def is_leap_def ord2ymd_def
  MAXORDINAL_def delta_def Let_def

lemmas label_eval = strftime_b_d_def month_abbr_def pad2_def str_nat.simps digit_char_def

lemma date_add_20200317: "date_add (Date 2020 3 17) delta = Inr (Date 2020 3 3)"
  by (simp add: date_eval)

lemma strftime_20200303: "strftime_b_d (Date 2020 3 3) = ''Mar 03''"
  by (simp add: label_eval)

section \<open>The estimator\<close>

text \<open>
  When \<open>estimate\<close> returns, the row is labelled by a date that has a date 14 days before
  it, its \<^verbatim>\<open>death\<close> cell is a number or a null, and the dictionary is the one below.
\<close>

lemma estimate_Inr:
  "estimate (l, r) = Inr e \<longleftrightarrow>
     (\<exists>d0 d x. l = Stamp d0 \<and> date_add d0 delta = Inr d \<and> map_of r ''death'' = Some x
        \<and> (x = NaN \<or> (\<exists>v. x = Num v))
        \<and> e = [(''date'', Stamp d),
               (''infected'', (case x of Num v \<Rightarrow> Num (v / death_rate) | _ \<Rightarrow> NaN)),
               (''symptomatic'', (case x of Num v \<Rightarrow> Num (v / death_rate_s) | _ \<Rightarrow> NaN)),
               (''day'', Str (strftime_b_d d))])"
proof (cases l)
  case (Stamp d0)
  show ?thesis
  proof (cases "map_of r ''death''")
    case None
    then show ?thesis using Stamp
      by (cases "date_add d0 delta") (simp_all add: estimate_def row_getattr_def)
  next
    case (Some x)
    then show ?thesis using Stamp
      by (cases "date_add d0 delta"; cases x) (auto simp add: estimate_def row_getattr_def)
  qed
qed (simp_all add: estimate_def)

lemma estimate_20200317:
  "estimate (Stamp (Date 2020 3 17), [(''positive'', Num 100), (''death'', Num 10)])
     = Inr [(''date'', Stamp (Date 2020 3 3)), (''infected'', Num (10 / death_rate)),
            (''symptomatic'', Num (10 / death_rate_s)), (''day'', Str ''Mar 03'')]"
  by (simp add: estimate_def row_getattr_def date_add_20200317 strftime_20200303)

text \<open>
  C8. The estimator is linear in the death count: when a row with \<^verbatim>\<open>death = x\<close> gives an
  estimate, the same row with \<^verbatim>\<open>death = 2 * x\<close> gives one too, and both its \<^verbatim>\<open>infected\<close>
  and its \<^verbatim>\<open>symptomatic\<close> are twice those of the first.
\<close>

theorem estimate_linear:
  assumes "estimate (l, r) = Inr e" and "map_of r ''death'' = Some (Num x)"
  shows "\<exists>e' i s. estimate (l, AList.update ''death'' (Num (2 * x)) r) = Inr e'
           \<and> getitem e ''infected'' = Num i \<and> getitem e' ''infected'' = Num (2 * i)
           \<and> getitem e ''symptomatic'' = Num s \<and> getitem e' ''symptomatic'' = Num (2 * s)"
  using assms by (auto simp: estimate_Inr getitem_def update_conv)

theorem estimate_linear_witness:
  "estimate (Stamp (Date 2020 3 17), [(''positive'', Num 100), (''death'', Num 10)])
     = Inr [(''date'', Stamp (Date 2020 3 3)), (''infected'', Num (10 / death_rate)),
            (''symptomatic'', Num (10 / death_rate_s)), (''day'', Str ''Mar 03'')]
   \<and> map_of [(''positive'', Num 100), (''death'', Num 10)] ''death'' = Some (Num 10)
   \<and> (\<exists>e'. estimate (Stamp (Date 2020 3 17), [(''positive'', Num 100), (''death'', Num 20)]) = Inr e'
         \<and> getitem e' ''infected'' = Num (2 * (10 / death_rate))
         \<and> getitem e' ''symptomatic'' = Num (2 * (10 / death_rate_s)))"
proof -
  have h2: "map_of [(''positive'', Num 100), (''death'', Num 10)] ''death'' = Some (Num 10)"
    by simp
  show ?thesis
    using estimate_linear [OF estimate_20200317 h2] estimate_20200317
    by (auto simp: getitem_def)
qed

end
